theory Spec2Isabelle
  imports Main "HOL-Library.Word"
begin

unbundle bit_operations_syntax

section \<open>Platform types and constants\<close>

text \<open>
  The development follows \<^verbatim>\<open>toxcore/network.c\<close> as it is compiled on a POSIX system
  (the \<^verbatim>\<open>#else\<close> branches of \<^verbatim>\<open>#ifdef WIN32\<close>) with \<^verbatim>\<open>TOX_ENABLE_IPV6\<close> defined: that is
  the build in which an address carries a family tag.

  The address-family numbers come from the system headers; the values below are those of
  Linux. The code compares a family with \<open>AF_INET\<close>, with \<open>AF_INET6\<close> and with \<open>0\<close>, which
  are three different numbers on every system.
\<close>

type_synonym uint8_t = "8 word"
type_synonym uint16_t = "16 word"
type_synonym uint32_t = "32 word"
type_synonym sa_family_t = "16 word"

definition AF_INET :: sa_family_t where
  "AF_INET = 2"

definition AF_INET6 :: sa_family_t where
  "AF_INET6 = 10"

section \<open>Address model\<close>

text \<open>
  \<^verbatim>\<open>struct in6_addr\<close>: sixteen bytes, which the code reads and writes through the
  \<^verbatim>\<open>s6_addr32[4]\<close> view, four 32-bit words in host byte order.
\<close>

record in6_addr =
  s6_addr32_0 :: uint32_t
  s6_addr32_1 :: uint32_t
  s6_addr32_2 :: uint32_t
  s6_addr32_3 :: uint32_t

text \<open>
  Modelled from the spec: the declaration of \<^verbatim>\<open>IP\<close> (\<^verbatim>\<open>IPAny\<close>, in network.h) is not among
  the sources. The spec describes an address as a family tag and a value that is either
  4 or 16 bytes, and the code reaches the value as \<^verbatim>\<open>ip.ip4\<close> or \<^verbatim>\<open>ip.ip6\<close>: the two
  members share storage, \<^verbatim>\<open>ip4\<close> lying over the first four bytes of \<^verbatim>\<open>ip6\<close>. The record
  keeps the sixteen bytes of storage; \<open>ip4_uint32\<close> (the members \<^verbatim>\<open>ip4.uint32\<close> and
  \<^verbatim>\<open>ip4.in_addr.s_addr\<close>) reads the first word and \<open>ip4_assign\<close> writes it.
\<close>

record IP =
  family :: sa_family_t
  ip6 :: in6_addr

definition ip4_uint32 :: "IP \<Rightarrow> uint32_t" where
  "ip4_uint32 a = s6_addr32_0 (ip6 a)"

definition ip4_assign :: "uint32_t \<Rightarrow> IP \<Rightarrow> IP" where
  "ip4_assign v a = a\<lparr>ip6 := (ip6 a)\<lparr>s6_addr32_0 := v\<rparr>\<rparr>"

text \<open>\<^verbatim>\<open>IP_Port\<close>: an address and a port; the port is kept in network byte order.\<close>

record IP_Port =
  ip :: IP
  port :: uint16_t

text \<open>
  \<^verbatim>\<open>IN6_ARE_ADDR_EQUAL\<close> is the system's macro: it compares the four words of two
  addresses.
\<close>

definition IN6_ARE_ADDR_EQUAL :: "in6_addr \<Rightarrow> in6_addr \<Rightarrow> int" where
  "IN6_ARE_ADDR_EQUAL a b =
     of_bool (s6_addr32_0 a = s6_addr32_0 b \<and> s6_addr32_1 a = s6_addr32_1 b \<and>
              s6_addr32_2 a = s6_addr32_2 b \<and> s6_addr32_3 a = s6_addr32_3 b)"

text \<open>
  The comparison and validity functions take pointers, which may be \<^verbatim>\<open>NULL\<close>: a pointer
  argument is an \<open>option\<close>, \<open>None\<close> for \<^verbatim>\<open>NULL\<close>. They return a C \<^verbatim>\<open>int\<close> used as a truth
  value.
\<close>

definition ip_equal :: "IP option \<Rightarrow> IP option \<Rightarrow> int" where
  "ip_equal a b =
     (case (a, b) of
        (Some a', Some b') \<Rightarrow>
          if family a' = AF_INET then of_bool (ip4_uint32 a' = ip4_uint32 b')
          else if family a' = AF_INET6 then IN6_ARE_ADDR_EQUAL (ip6 a') (ip6 b')
          else 0
      | _ \<Rightarrow> 0)"

definition ipport_equal :: "IP_Port option \<Rightarrow> IP_Port option \<Rightarrow> int" where
  "ipport_equal a b =
     (case (a, b) of
        (Some a', Some b') \<Rightarrow>
          if port a' = 0 \<or> port a' \<noteq> port b' then 0
          else ip_equal (Some (ip a')) (Some (ip b'))
      | _ \<Rightarrow> 0)"

definition ip_isset :: "IP option \<Rightarrow> int" where
  "ip_isset p = (case p of None \<Rightarrow> 0 | Some a \<Rightarrow> of_bool (family a \<noteq> 0))"

definition ipport_isset :: "IP_Port option \<Rightarrow> int" where
  "ipport_isset p =
     (case p of
        None \<Rightarrow> 0
      | Some ipport \<Rightarrow> if port ipport = 0 then 0 else ip_isset (Some (ip ipport)))"

section \<open>Byte order\<close>

text \<open>
  The code fills wire addresses through 32-bit and 16-bit stores and converts with
  \<^verbatim>\<open>htonl\<close>, \<^verbatim>\<open>htons\<close> and \<^verbatim>\<open>ntohs\<close>, so the bytes that reach the wire depend on the byte
  order of the host. The order is a parameter of the model.
\<close>

datatype byte_order = LittleEndian | BigEndian

definition bswap_16 :: "uint16_t \<Rightarrow> uint16_t" where
  "bswap_16 x = push_bit 8 x OR drop_bit 8 x"

definition bswap_32 :: "uint32_t \<Rightarrow> uint32_t" where
  "bswap_32 x =
     push_bit 24 x OR push_bit 8 (x AND 0xFF00) OR (drop_bit 8 x AND 0xFF00) OR drop_bit 24 x"

definition htons :: "byte_order \<Rightarrow> uint16_t \<Rightarrow> uint16_t" where
  "htons e x = (case e of BigEndian \<Rightarrow> x | LittleEndian \<Rightarrow> bswap_16 x)"

definition ntohs :: "byte_order \<Rightarrow> uint16_t \<Rightarrow> uint16_t" where
  "ntohs e x = (case e of BigEndian \<Rightarrow> x | LittleEndian \<Rightarrow> bswap_16 x)"

definition htonl :: "byte_order \<Rightarrow> uint32_t \<Rightarrow> uint32_t" where
  "htonl e x = (case e of BigEndian \<Rightarrow> x | LittleEndian \<Rightarrow> bswap_32 x)"

text \<open>The four bytes a stored 32-bit word occupies, in the order of their addresses.\<close>

definition bytes_of_uint32 :: "byte_order \<Rightarrow> uint32_t \<Rightarrow> uint8_t list" where
  "bytes_of_uint32 e x =
     (let msb_first = [ucast (drop_bit 24 x), ucast (drop_bit 16 x), ucast (drop_bit 8 x), ucast x]
      in case e of BigEndian \<Rightarrow> msb_first | LittleEndian \<Rightarrow> rev msb_first)"

text \<open>
  The byte views of the unions: \<^verbatim>\<open>s6_addr[16]\<close> of an \<^verbatim>\<open>in6_addr\<close> and \<^verbatim>\<open>ip4.uint8[4]\<close> of an
  address.
\<close>

definition s6_addr :: "byte_order \<Rightarrow> in6_addr \<Rightarrow> uint8_t list" where
  "s6_addr e a =
     bytes_of_uint32 e (s6_addr32_0 a) @ bytes_of_uint32 e (s6_addr32_1 a) @
     bytes_of_uint32 e (s6_addr32_2 a) @ bytes_of_uint32 e (s6_addr32_3 a)"

definition ip4_uint8 :: "byte_order \<Rightarrow> IP \<Rightarrow> uint8_t list" where
  "ip4_uint8 e a = bytes_of_uint32 e (ip4_uint32 a)"

section \<open>Wire socket addresses\<close>

text \<open>
  \<^verbatim>\<open>struct sockaddr_storage\<close> is a block of memory that the code reads and writes through
  casts to \<^verbatim>\<open>struct sockaddr_in\<close> and \<^verbatim>\<open>struct sockaddr_in6\<close>. The record has one field for
  each region the two layouts distinguish:
  \<^item> offset 0: \<^verbatim>\<open>ss_family\<close>, that is \<^verbatim>\<open>sin_family\<close> and \<^verbatim>\<open>sin6_family\<close>;
  \<^item> offset 2: \<^verbatim>\<open>sin_port\<close> and \<^verbatim>\<open>sin6_port\<close>;
  \<^item> offset 4: \<^verbatim>\<open>sin_addr.s_addr\<close>, which is also \<^verbatim>\<open>sin6_flowinfo\<close>;
  \<^item> offset 8: \<^verbatim>\<open>sin6_addr\<close>;
  \<^item> offset 24: \<^verbatim>\<open>sin6_scope_id\<close>.
  A local variable of this type starts with whatever the stack holds, so the functions
  that declare one take its initial content as an argument.
\<close>

record sockaddr_storage =
  ss_family :: sa_family_t
  ss_port :: uint16_t
  ss_word4 :: uint32_t
  ss_addr6 :: in6_addr
  ss_scope_id :: uint32_t

abbreviation sin_family :: "sockaddr_storage \<Rightarrow> sa_family_t" where
  "sin_family \<equiv> ss_family"

abbreviation sin_port :: "sockaddr_storage \<Rightarrow> uint16_t" where
  "sin_port \<equiv> ss_port"

abbreviation sin_addr :: "sockaddr_storage \<Rightarrow> uint32_t" where
  "sin_addr \<equiv> ss_word4"

abbreviation sin6_family :: "sockaddr_storage \<Rightarrow> sa_family_t" where
  "sin6_family \<equiv> ss_family"

abbreviation sin6_port :: "sockaddr_storage \<Rightarrow> uint16_t" where
  "sin6_port \<equiv> ss_port"

abbreviation sin6_flowinfo :: "sockaddr_storage \<Rightarrow> uint32_t" where
  "sin6_flowinfo \<equiv> ss_word4"

abbreviation sin6_addr :: "sockaddr_storage \<Rightarrow> in6_addr" where
  "sin6_addr \<equiv> ss_addr6"

abbreviation sin6_scope_id :: "sockaddr_storage \<Rightarrow> uint32_t" where
  "sin6_scope_id \<equiv> ss_scope_id"

definition sizeof_sockaddr_in :: nat where
  "sizeof_sockaddr_in = 16"

definition sizeof_sockaddr_in6 :: nat where
  "sizeof_sockaddr_in6 = 28"

section \<open>The socket object and its environment\<close>

text \<open>
  Modelled from the spec: the declarations of \<^verbatim>\<open>Packet_Handles\<close> and \<^verbatim>\<open>Networking_Core\<close>
  (in network.h) are not among the sources. The spec gives the socket object one socket
  handle, the family it was bound with and a dispatch table of 256 slots, each a handler
  and a context; the code reaches them as \<^verbatim>\<open>sock\<close>, \<^verbatim>\<open>family\<close>, \<^verbatim>\<open>port\<close> and
  \<^verbatim>\<open>packethandlers[i].function\<close>, \<^verbatim>\<open>packethandlers[i].object\<close>.

  A handler and its context are pointers the code stores and passes on without looking
  inside: they are addresses, \<open>NULL\<close> being 0. The table \<^verbatim>\<open>packethandlers[256]\<close> is indexed
  by a \<^verbatim>\<open>uint8_t\<close>, so it is a total function on bytes. The fields \<^verbatim>\<open>family\<close> and \<^verbatim>\<open>port\<close> of
  \<^verbatim>\<open>Networking_Core\<close> are \<open>net_family\<close> and \<open>net_port\<close> here, and \<^verbatim>\<open>function\<close> is
  \<open>function'\<close>.
\<close>

type_synonym pointer = nat

definition NULL :: pointer where
  "NULL = 0"

record Packet_Handles =
  function' :: pointer
  object :: pointer

record Networking_Core =
  packethandlers :: "uint8_t \<Rightarrow> Packet_Handles"
  net_family :: sa_family_t
  net_port :: uint16_t
  sock :: int

text \<open>
  What the code asks of the system and the C library. Constants of the system headers
  that are only passed through are kept symbolic.
\<close>

datatype sock_type = SOCK_DGRAM
datatype ipproto = IPPROTO_UDP
datatype sockopt_level = SOL_SOCKET | IPPROTO_IPV6
datatype sockopt_name = SO_BROADCAST | IPV6_V6ONLY
datatype fcntl_cmd = F_SETFL
datatype file_flag = O_NONBLOCK

datatype syscall =
    Current_time
  | Srandom uint32_t
  | Srand uint32_t
  | Calloc_Networking_Core
  | Free_Networking_Core
  | Socket sa_family_t sock_type ipproto
  | Setsockopt int sockopt_level sockopt_name int nat
  | Fcntl int fcntl_cmd file_flag int
  | Bind int sockaddr_storage nat
  | Sendto int "uint8_t list" uint32_t int sockaddr_storage nat
  | Printf_failed_to_bind int IP uint16_t

text \<open>
  The state the code changes: the calls made so far, in order, \<^verbatim>\<open>errno\<close>, and the global
  flag \<^verbatim>\<open>at_startup_ran\<close>. The system is any function from the calls made so far and
  the present call to the value the call returns and the \<^verbatim>\<open>errno\<close> it leaves.
\<close>

record world =
  trace :: "syscall list"
  errno :: int
  at_startup_ran :: uint8_t

type_synonym os = "syscall list \<Rightarrow> syscall \<Rightarrow> int \<times> int"

definition syscall :: "os \<Rightarrow> syscall \<Rightarrow> world \<Rightarrow> int \<times> world" where
  "syscall os c w =
     (case os (trace w) c of
        (r, en) \<Rightarrow> (r, w\<lparr>trace := trace w @ [c], errno := en\<rparr>))"

text \<open>A call whose result the code does not use and which leaves \<^verbatim>\<open>errno\<close> alone.\<close>

definition emit :: "syscall \<Rightarrow> world \<Rightarrow> world" where
  "emit c w = w\<lparr>trace := trace w @ [c]\<rparr>"

section \<open>Sending\<close>

text \<open>
  \<^verbatim>\<open>sendpacket\<close>; \<open>addr\<close> is the initial content of its local \<^verbatim>\<open>struct sockaddr_storage\<close>.
  The result is the value returned and the world after the call.
\<close>

definition sendpacket ::
  "byte_order \<Rightarrow> os \<Rightarrow> Networking_Core \<Rightarrow> IP_Port \<Rightarrow> uint8_t list \<Rightarrow> uint32_t \<Rightarrow>
   sockaddr_storage \<Rightarrow> world \<Rightarrow> int \<times> world" where
  "sendpacket e os net ip_port data length' addr w =
     (if net_family net = AF_INET \<and> family (ip ip_port) \<noteq> AF_INET then (0, w)
      else if family (ip ip_port) = AF_INET then
        (if net_family net = AF_INET6 then
           (let addr6 = addr\<lparr>ss_family := AF_INET6, ss_port := port ip_port\<rparr>;
                addr6 = addr6\<lparr>ss_addr6 := (sin6_addr addr6)\<lparr>s6_addr32_0 := 0\<rparr>\<rparr>;
                addr6 = addr6\<lparr>ss_addr6 := (sin6_addr addr6)\<lparr>s6_addr32_1 := 0\<rparr>\<rparr>;
                addr6 = addr6\<lparr>ss_addr6 := (sin6_addr addr6)\<lparr>s6_addr32_2 := htonl e 0xFFFF\<rparr>\<rparr>;
                addr6 = addr6\<lparr>ss_addr6 :=
                          (sin6_addr addr6)\<lparr>s6_addr32_3 := ip4_uint32 (ip ip_port)\<rparr>\<rparr>;
                addr6 = addr6\<lparr>ss_word4 := 0, ss_scope_id := 0\<rparr>
            in syscall os (Sendto (sock net) data length' 0 addr6 sizeof_sockaddr_in6) w)
         else
           (let ip4 = ip4_uint32 (ip ip_port);
                addr4 = addr\<lparr>ss_family := AF_INET, ss_word4 := ip4, ss_port := port ip_port\<rparr>
            in syscall os (Sendto (sock net) data length' 0 addr4 sizeof_sockaddr_in) w))
      else if family (ip ip_port) = AF_INET6 then
        (let addr6 = addr\<lparr>ss_family := AF_INET6, ss_port := port ip_port,
                          ss_addr6 := ip6 (ip ip_port)\<rparr>;
             addr6 = addr6\<lparr>ss_word4 := 0, ss_scope_id := 0\<rparr>
         in syscall os (Sendto (sock net) data length' 0 addr6 sizeof_sockaddr_in6) w)
      else (0, w))"

section \<open>Receiving and dispatch\<close>

text \<open>
  What one call of \<^verbatim>\<open>recvfrom\<close> leaves behind: the value it returns, the content of the
  address block and the content of the data buffer after the call. \<^verbatim>\<open>receivepacket\<close> uses
  its socket argument for this call only, so the model takes the outcome of the call in
  its place.

  The value returned by \<^verbatim>\<open>recvfrom\<close> is stored through \<^verbatim>\<open>(int32_t *)length\<close>: it is cut to 32
  bits, tested as a signed number and read by the caller as an unsigned one. The result
  is the value returned, \<^verbatim>\<open>*ip_port\<close> and \<^verbatim>\<open>*length\<close>.
\<close>

record recvfrom_result =
  rf_ret :: int
  rf_addr :: sockaddr_storage
  rf_data :: "uint8_t list"

definition receivepacket :: "recvfrom_result \<Rightarrow> IP_Port \<Rightarrow> int \<times> IP_Port \<times> uint32_t" where
  "receivepacket r ip_port =
     (let length' = (word_of_int (rf_ret r) :: uint32_t); addr = rf_addr r
      in if sint length' \<le> 0 then (- 1, ip_port, length')
         else if ss_family addr = AF_INET then
           (let ip_port = ip_port\<lparr>ip := (ip ip_port)\<lparr>family := sin_family addr\<rparr>\<rparr>;
                ip_port = ip_port\<lparr>ip := ip4_assign (sin_addr addr) (ip ip_port)\<rparr>;
                ip_port = ip_port\<lparr>port := sin_port addr\<rparr>
            in (0, ip_port, length'))
         else if ss_family addr = AF_INET6 then
           (let ip_port = ip_port\<lparr>ip := (ip ip_port)\<lparr>family := sin6_family addr\<rparr>\<rparr>;
                ip_port = ip_port\<lparr>ip := (ip ip_port)\<lparr>ip6 := sin6_addr addr\<rparr>\<rparr>;
                ip_port = ip_port\<lparr>port := sin6_port addr\<rparr>
            in (0, ip_port, length'))
         else (- 1, ip_port, length'))"

definition networking_registerhandler ::
  "Networking_Core \<Rightarrow> uint8_t \<Rightarrow> pointer \<Rightarrow> pointer \<Rightarrow> Networking_Core" where
  "networking_registerhandler net byte cb object' =
     (let net = net\<lparr>packethandlers :=
                  (packethandlers net)(byte := (packethandlers net byte)\<lparr>function' := cb\<rparr>)\<rparr>
      in net\<lparr>packethandlers :=
               (packethandlers net)(byte := (packethandlers net byte)\<lparr>object := object'\<rparr>)\<rparr>)"

text \<open>
  A handler is code outside this file. Calling one is recorded with its arguments: the
  function called, the context, the sender, the data buffer and the length. The buffer
  \<^verbatim>\<open>data\<close> is an array of \<^verbatim>\<open>MAX_UDP_PACKET_SIZE\<close> bytes, so \<^verbatim>\<open>data[0]\<close> always exists; the
  model reads the first element of the buffer content.

  \<^verbatim>\<open>networking_poll\<close> runs over the outcomes of the calls of \<^verbatim>\<open>recvfrom\<close> that the pending
  datagrams give, in order. When nothing is pending \<^verbatim>\<open>recvfrom\<close> returns \<open>-1\<close> on the
  non-blocking socket, \<^verbatim>\<open>receivepacket\<close> returns \<open>-1\<close> and the loop ends: that is the
  equation for the empty list. \<open>ip_port\<close> is the content of the local variable, which
  each iteration inherits from the one before. The result is the handler calls made, in
  order.
\<close>

datatype handler_call = Handler_call pointer pointer IP_Port "uint8_t list" uint32_t

fun networking_poll ::
  "Networking_Core \<Rightarrow> recvfrom_result list \<Rightarrow> IP_Port \<Rightarrow> handler_call list" where
  "networking_poll net [] ip_port = []"
| "networking_poll net (r # rs) ip_port =
     (case receivepacket r ip_port of
        (ret, ip_port', length') \<Rightarrow>
          if ret = - 1 then []
          else if length' < 1 then networking_poll net rs ip_port'
          else if function' (packethandlers net (rf_data r ! 0)) = NULL
          then networking_poll net rs ip_port'
          else Handler_call (function' (packethandlers net (rf_data r ! 0)))
                 (object (packethandlers net (rf_data r ! 0))) ip_port' (rf_data r) length'
               # networking_poll net rs ip_port')"

section \<open>Socket creation\<close>

text \<open>
  \<^verbatim>\<open>current_time\<close> reads the clock; the model takes its 64-bit result from the environment.
\<close>

definition current_time :: "os \<Rightarrow> world \<Rightarrow> 64 word \<times> world" where
  "current_time os w = (case syscall os Current_time w of (t, w') \<Rightarrow> (word_of_int t, w'))"

definition at_startup :: "os \<Rightarrow> world \<Rightarrow> int \<times> world" where
  "at_startup os w =
     (if at_startup_ran w \<noteq> 0 then (0, w)
      else
        (case current_time os w of
           (t1, w1) \<Rightarrow>
             (let w2 = emit (Srandom (ucast t1)) w1
              in case current_time os w2 of
                   (t2, w3) \<Rightarrow>
                     (let w4 = emit (Srand (ucast t2)) w3
                      in (0, w4\<lparr>at_startup_ran := 1\<rparr>)))))"

text \<open>The object \<^verbatim>\<open>calloc\<close> returns: every byte zero.\<close>

definition calloc_Networking_Core :: Networking_Core where
  "calloc_Networking_Core =
     \<lparr>packethandlers = (\<lambda>_. \<lparr>function' = NULL, object = NULL\<rparr>),
      net_family = 0, net_port = 0, sock = 0\<rparr>"

text \<open>
  The loop of \<^verbatim>\<open>new_networking\<close> that binds. \<^verbatim>\<open>portptr\<close> points at the port field of \<open>addr\<close>,
  which lies at the same place in both layouts.
\<close>

function bind_loop ::
  "byte_order \<Rightarrow> os \<Rightarrow> Networking_Core \<Rightarrow> sockaddr_storage \<Rightarrow> nat \<Rightarrow> nat \<Rightarrow> world \<Rightarrow>
   Networking_Core option \<times> world" where
  "bind_loop e os temp addr addrsize tries w =
     (if tries < 9 then
        (case syscall os (Bind (sock temp) addr addrsize) w of
           (res, w') \<Rightarrow>
             if res = 0 then (Some (temp\<lparr>net_port := ss_port addr\<rparr>), w')
             else
               (let port = ntohs e (ss_port addr);
                    port = port + 1;
                    addr = addr\<lparr>ss_port := htons e port\<rparr>
                in bind_loop e os temp addr addrsize (tries + 1) w'))
      else (None, w))"
  by pat_completeness auto
termination
  by (relation "measure (\<lambda>(e, os, temp, addr, addrsize, tries, w). 9 - tries)") auto

text \<open>
  The end of \<^verbatim>\<open>new_networking\<close>, from the loop on: the loop, and after it the message and
  the release of the object. The \<^verbatim>\<open>port\<close> in the message is the parameter of
  \<^verbatim>\<open>new_networking\<close>: the variable of the same name inside the loop is out of scope there.
\<close>

definition bind_retry ::
  "byte_order \<Rightarrow> os \<Rightarrow> Networking_Core \<Rightarrow> sockaddr_storage \<Rightarrow> nat \<Rightarrow> IP \<Rightarrow> uint16_t \<Rightarrow>
   world \<Rightarrow> Networking_Core option \<times> world" where
  "bind_retry e os temp addr addrsize ip' port' w =
     (case bind_loop e os temp addr addrsize 0 w of
        (Some net, w') \<Rightarrow> (Some net, w')
      | (None, w') \<Rightarrow>
          (let w' = emit (Printf_failed_to_bind (errno w') ip' port') w';
               w' = emit Free_Networking_Core w'
           in (None, w')))"

text \<open>
  \<^verbatim>\<open>new_networking\<close>; \<open>addr\<close> is the initial content of its local
  \<^verbatim>\<open>struct sockaddr_storage\<close>. \<open>None\<close> is the \<^verbatim>\<open>NULL\<close> result.
\<close>

definition new_networking ::
  "byte_order \<Rightarrow> os \<Rightarrow> IP \<Rightarrow> uint16_t \<Rightarrow> sockaddr_storage \<Rightarrow> world \<Rightarrow>
   Networking_Core option \<times> world" where
  "new_networking e os ip' port' addr w =
     (if family ip' \<noteq> AF_INET \<and> family ip' \<noteq> AF_INET6 then (None, w)
      else
        (case at_startup os w of
           (started, w) \<Rightarrow>
             if started \<noteq> 0 then (None, w)
             else
               (case syscall os Calloc_Networking_Core w of
                  (allocated, w) \<Rightarrow>
                    if allocated = 0 then (None, w)
                    else
                      (let temp = calloc_Networking_Core;
                           temp = temp\<lparr>net_family := family ip'\<rparr>;
                           temp = temp\<lparr>net_port := 0\<rparr>
                       in case syscall os (Socket (net_family temp) SOCK_DGRAM IPPROTO_UDP) w of
                            (s, w) \<Rightarrow>
                              (let temp = temp\<lparr>sock := s\<rparr>
                               in if sock temp < 0 then (None, emit Free_Networking_Core w)
                                  else
                                    (let w = snd (syscall os
                                               (Setsockopt (sock temp) SOL_SOCKET SO_BROADCAST 1 4) w);
                                         w = snd (syscall os
                                               (Fcntl (sock temp) F_SETFL O_NONBLOCK 1) w)
                                     in case (if net_family temp = AF_INET then
                                                Some (addr\<lparr>ss_family := AF_INET,
                                                           ss_port := htons e port',
                                                           ss_word4 := ip4_uint32 ip'\<rparr>,
                                                      sizeof_sockaddr_in)
                                              else if net_family temp = AF_INET6 then
                                                Some (addr\<lparr>ss_family := AF_INET6,
                                                           ss_port := htons e port',
                                                           ss_addr6 := ip6 ip',
                                                           ss_word4 := 0, ss_scope_id := 0\<rparr>,
                                                      sizeof_sockaddr_in6)
                                              else None) of
                                          None \<Rightarrow> (None, w)
                                        | Some (addr, addrsize) \<Rightarrow>
                                            (let w = (if family ip' = AF_INET6
                                                      then snd (syscall os
                                                             (Setsockopt (sock temp) IPPROTO_IPV6
                                                                IPV6_V6ONLY 0 1) w)
                                                      else w)
                                             in bind_retry e os temp addr addrsize
                                                  ip' port' w)))))))"

section \<open>Notions used to state the properties\<close>

text \<open>
  A call of \<^verbatim>\<open>recvfrom\<close> delivers a datagram that \<^verbatim>\<open>receivepacket\<close> accepts when the length
  returned is positive and the address family of the sender is one of the two known.
\<close>

definition datagram_received :: "recvfrom_result \<Rightarrow> bool" where
  "datagram_received r =
     (0 < rf_ret r \<and> (ss_family (rf_addr r) = AF_INET \<or> ss_family (rf_addr r) = AF_INET6))"

text \<open>
  \<open>s\<close> is the sender of the datagram: family and port as on the wire, and the address
  of that family as on the wire.
\<close>

definition sender_of :: "recvfrom_result \<Rightarrow> IP_Port \<Rightarrow> bool" where
  "sender_of r s =
     (family (ip s) = ss_family (rf_addr r) \<and> port s = ss_port (rf_addr r) \<and>
      (if ss_family (rf_addr r) = AF_INET then ip4_uint32 (ip s) = sin_addr (rf_addr r)
       else ip6 (ip s) = sin6_addr (rf_addr r)))"

text \<open>A handler is registered for the first byte of the datagram.\<close>

definition registered :: "Networking_Core \<Rightarrow> recvfrom_result \<Rightarrow> bool" where
  "registered net r = (function' (packethandlers net (rf_data r ! 0)) \<noteq> NULL)"

text \<open>
  The handler call \<open>c\<close> is the dispatch of the datagram: the function and the context
  are those of the slot of its first byte, the sender is its sender, the buffer is the
  one that holds it and the length is its whole length.
\<close>

fun dispatched :: "Networking_Core \<Rightarrow> recvfrom_result \<Rightarrow> handler_call \<Rightarrow> bool" where
  "dispatched net r (Handler_call f ob s d len) =
     (f = function' (packethandlers net (rf_data r ! 0)) \<and>
      ob = object (packethandlers net (rf_data r ! 0)) \<and>
      sender_of r s \<and> d = rf_data r \<and> uint len = rf_ret r)"

text \<open>
  The first \<open>k\<close> calls of \<^verbatim>\<open>bind\<close> when the first port, in host byte order, is \<open>p\<close>: call
  \<open>j\<close> asks for port \<open>p + j\<close>. \<open>bind_result\<close> is what the system answers to call \<open>j\<close>
  after the calls before it: the value returned and \<^verbatim>\<open>errno\<close>.
\<close>

definition bind_attempts ::
  "byte_order \<Rightarrow> Networking_Core \<Rightarrow> sockaddr_storage \<Rightarrow> nat \<Rightarrow> uint16_t \<Rightarrow> nat \<Rightarrow>
   syscall list" where
  "bind_attempts e temp addr addrsize p k =
     map (\<lambda>j. Bind (sock temp) (addr\<lparr>ss_port := htons e (p + of_nat j)\<rparr>) addrsize) [0..<k]"

definition bind_result ::
  "os \<Rightarrow> byte_order \<Rightarrow> Networking_Core \<Rightarrow> sockaddr_storage \<Rightarrow> nat \<Rightarrow> uint16_t \<Rightarrow> world \<Rightarrow>
   nat \<Rightarrow> int \<times> int" where
  "bind_result os e temp addr addrsize p w j =
     os (trace w @ bind_attempts e temp addr addrsize p j)
        (Bind (sock temp) (addr\<lparr>ss_port := htons e (p + of_nat j)\<rparr>) addrsize)"

text \<open>
  What the kernel binds. The spec's local bind request reads: port 0 requests a port
  assigned by the system. So a \<^verbatim>\<open>bind\<close> that succeeds binds the port asked for, unless
  that port is 0: then it binds the port \<open>chosen\<close> by the kernel. Ports are in host byte
  order here.
\<close>

definition bound_port :: "uint16_t \<Rightarrow> uint16_t \<Rightarrow> uint16_t" where
  "bound_port chosen asked = (if asked = 0 then chosen else asked)"

section \<open>Example values\<close>

text \<open>
  A system on which the first \<open>k\<close> calls of \<^verbatim>\<open>bind\<close> fail with \<^verbatim>\<open>EADDRINUSE\<close> (98) and the
  later ones succeed, the request for \<^verbatim>\<open>IPV6_V6ONLY\<close> fails with \<^verbatim>\<open>ENOPROTOOPT\<close> (92), the
  allocation succeeds, the new socket is descriptor 3, and every other call returns 0.
\<close>

definition is_Bind :: "syscall \<Rightarrow> bool" where
  "is_Bind c = (case c of Bind s a n \<Rightarrow> True | _ \<Rightarrow> False)"

definition os_busy :: "nat \<Rightarrow> os" where
  "os_busy k h c =
     (case c of
        Bind s a n \<Rightarrow> if length (filter is_Bind h) < k then (- 1, 98) else (0, 0)
      | Calloc_Networking_Core \<Rightarrow> (1, 0)
      | Socket f t pr \<Rightarrow> (3, 0)
      | Setsockopt s l opt v n \<Rightarrow>
          (case opt of IPV6_V6ONLY \<Rightarrow> (- 1, 92) | SO_BROADCAST \<Rightarrow> (0, 0))
      | Current_time \<Rightarrow> (1383000000000000, 0)
      | _ \<Rightarrow> (0, 0))"

definition in6addr_any :: in6_addr where
  "in6addr_any = \<lparr>s6_addr32_0 = 0, s6_addr32_1 = 0, s6_addr32_2 = 0, s6_addr32_3 = 0\<rparr>"

definition sockaddr_zero :: sockaddr_storage where
  "sockaddr_zero =
     \<lparr>ss_family = 0, ss_port = 0, ss_word4 = 0, ss_addr6 = in6addr_any, ss_scope_id = 0\<rparr>"

definition world_init :: world where
  "world_init = \<lparr>trace = [], errno = 0, at_startup_ran = 0\<rparr>"

text \<open>
  Addresses, as a little-endian host holds them: no address (all zero, what \<^verbatim>\<open>ip_reset\<close>
  leaves), 0.0.0.0, 1.2.3.4, and the IPv6 address 102:304::1, whose first four bytes are
  1, 2, 3, 4. Port 33445 is \<open>0x82A5\<close>, in network byte order \<open>0xA582\<close> for such a host.
\<close>

definition ip_unset :: IP where
  "ip_unset = \<lparr>family = 0, ip6 = in6addr_any\<rparr>"

definition ip4_any :: IP where
  "ip4_any = \<lparr>family = AF_INET, ip6 = in6addr_any\<rparr>"

definition ip4_1234 :: IP where
  "ip4_1234 =
     \<lparr>family = AF_INET,
      ip6 = \<lparr>s6_addr32_0 = 0x04030201, s6_addr32_1 = 0, s6_addr32_2 = 0, s6_addr32_3 = 0\<rparr>\<rparr>"

definition ip6_1234 :: IP where
  "ip6_1234 =
     \<lparr>family = AF_INET6,
      ip6 = \<lparr>s6_addr32_0 = 0x04030201, s6_addr32_1 = 0, s6_addr32_2 = 0,
             s6_addr32_3 = 0x01000000\<rparr>\<rparr>"

definition ip6_any :: IP where
  "ip6_any = \<lparr>family = AF_INET6, ip6 = in6addr_any\<rparr>"

definition net4 :: Networking_Core where
  "net4 = calloc_Networking_Core\<lparr>net_family := AF_INET, net_port := 0xA582, sock := 3\<rparr>"

definition net6 :: Networking_Core where
  "net6 = calloc_Networking_Core\<lparr>net_family := AF_INET6, net_port := 0xA582, sock := 3\<rparr>"

text \<open>
  Three outcomes of \<^verbatim>\<open>recvfrom\<close>: a datagram of three bytes with first byte 7 from
  1.2.3.4, port 33445; a datagram of two bytes with first byte 8 from the same sender;
  and nothing to read.
\<close>

definition from_1234 :: sockaddr_storage where
  "from_1234 = sockaddr_zero\<lparr>ss_family := AF_INET, ss_port := 0xA582, ss_word4 := 0x04030201\<rparr>"

definition recv_tag7 :: recvfrom_result where
  "recv_tag7 = \<lparr>rf_ret = 3, rf_addr = from_1234, rf_data = [7, 1, 2]\<rparr>"

definition recv_tag8 :: recvfrom_result where
  "recv_tag8 = \<lparr>rf_ret = 2, rf_addr = from_1234, rf_data = [8, 1, 2]\<rparr>"

definition recv_nothing :: recvfrom_result where
  "recv_nothing = \<lparr>rf_ret = - 1, rf_addr = sockaddr_zero, rf_data = [8, 1, 2]\<rparr>"

section \<open>Properties of address comparison and validity\<close>

lemma families_distinct: "AF_INET6 \<noteq> AF_INET" "AF_INET \<noteq> 0" "AF_INET6 \<noteq> 0"
  by (simp_all add: AF_INET_def AF_INET6_def)

text \<open>
  C3. The code breaks the claim, and its own description: the comment of \<^verbatim>\<open>ip_equal\<close> says
  that unset means unequal and that the result is 0 when the addresses are not equal or
  not initialised, but the function reads the family of its first argument only. The
  IPv4 address 1.2.3.4 compared with the IPv6 address 102:304::1 gives 1 although the
  families differ. The IPv4 address 0.0.0.0 compared with the address that has no family
  gives 1, and in the other order 0, so the comparison is not symmetric either.
\<close>

theorem ip_equal_ignores_second_family:
  "family ip4_1234 = AF_INET \<and> family ip6_1234 = AF_INET6 \<and>
   ip_equal (Some ip4_1234) (Some ip6_1234) = 1 \<and>
   family ip4_any = AF_INET \<and> family ip_unset = 0 \<and>
   ip_equal (Some ip4_any) (Some ip_unset) = 1 \<and>
   ip_equal (Some ip_unset) (Some ip4_any) = 0"
  by (simp add: ip_equal_def ip_unset_def ip4_1234_def ip6_1234_def ip4_any_def ip4_uint32_def
      in6addr_any_def AF_INET_def AF_INET6_def)

text \<open>
  C8, as stated, fails: the IPv4 address 0.0.0.0 has a family and a value that is all
  zero, and \<^verbatim>\<open>ip_isset\<close> gives 1 for it.
\<close>

theorem ip_isset_counterexample:
  "family ip4_any = AF_INET \<and> s6_addr LittleEndian (ip6 ip4_any) = replicate 16 0 \<and>
   ip_isset (Some ip4_any) = 1"
  by (simp add: ip4_any_def in6addr_any_def ip_isset_def AF_INET_def s6_addr_def
      bytes_of_uint32_def eval_nat_numeral)

text \<open>
  C8, amended. \<^verbatim>\<open>ip_isset\<close> looks at the family alone: it gives 0 exactly when the family
  is 0 (no family) and 1 for every other family, whatever the bytes of the value are.
\<close>

theorem ip_isset_family:
  "(ip_isset (Some a) = 0 \<longleftrightarrow> family a = 0) \<and> (ip_isset (Some a) = 1 \<longleftrightarrow> family a \<noteq> 0) \<and>
   ip_isset (Some (a\<lparr>ip6 := v\<rparr>)) = ip_isset (Some a)"
  by (simp add: ip_isset_def)

text \<open>
  C10. When the port of \<open>a\<close> is 0, \<^verbatim>\<open>ipport_equal\<close> gives 0 for every \<open>b\<close>, also for \<open>a\<close>
  itself: the comparison of endpoints is not reflexive on endpoints with port 0.
\<close>

theorem ipport_equal_port_0:
  assumes "port a = 0"
  shows "ipport_equal (Some a) (Some b) = 0 \<and> ipport_equal (Some a) (Some a) = 0"
  using assms by (simp add: ipport_equal_def)

text \<open>C10, witness: the endpoint 1.2.3.4 with port 0.\<close>

theorem ipport_equal_port_0_witness:
  "port \<lparr>ip = ip4_1234, port = 0\<rparr> = 0 \<and>
   ipport_equal (Some \<lparr>ip = ip4_1234, port = 0\<rparr>) (Some \<lparr>ip = ip4_any, port = 0\<rparr>) = 0 \<and>
   ipport_equal (Some \<lparr>ip = ip4_1234, port = 0\<rparr>) (Some \<lparr>ip = ip4_1234, port = 0\<rparr>) = 0"
proof -
  have h: "port \<lparr>ip = ip4_1234, port = 0\<rparr> = 0" by simp
  show ?thesis
    using h ipport_equal_port_0 [OF h, of "\<lparr>ip = ip4_any, port = 0\<rparr>"] by simp
qed

section \<open>Properties of sending\<close>

lemma bytes_of_htonl_FFFF: "bytes_of_uint32 e (htonl e 0xFFFF) = [0, 0, 0xFF, 0xFF]"
  by (cases e) (simp_all add: bytes_of_uint32_def htonl_def bswap_32_def)

lemma bytes_of_zero: "bytes_of_uint32 e 0 = [0, 0, 0, 0]"
  by (cases e) (simp_all add: bytes_of_uint32_def)

lemma length_bytes_of_uint32: "length (bytes_of_uint32 e x) = 4"
  by (cases e) (simp_all add: bytes_of_uint32_def)

text \<open>
  C1. A send through a socket bound with family IPv6 to an IPv4 destination makes one
  call of \<^verbatim>\<open>sendto\<close>, whose value it returns. The address of that call is of family IPv6,
  carries the port of the destination unchanged, and its sixteen address bytes are ten
  zero bytes, then \<open>0xFF\<close>, \<open>0xFF\<close>, then the four bytes of the IPv4 address. This holds
  for either byte order of the host.
\<close>

theorem sendpacket_ipv4_mapped:
  assumes "net_family net = AF_INET6" and "family (ip ip_port) = AF_INET"
  shows "\<exists>wire.
           sendpacket e os net ip_port data len addr w =
             (fst (os (trace w) (Sendto (sock net) data len 0 wire sizeof_sockaddr_in6)),
              w\<lparr>trace := trace w @ [Sendto (sock net) data len 0 wire sizeof_sockaddr_in6],
                errno :=
                  snd (os (trace w) (Sendto (sock net) data len 0 wire sizeof_sockaddr_in6))\<rparr>) \<and>
           sin6_family wire = AF_INET6 \<and> sin6_port wire = port ip_port \<and>
           s6_addr e (sin6_addr wire) =
             [0, 0, 0, 0, 0, 0, 0, 0, 0, 0, 0xFF, 0xFF] @ ip4_uint8 e (ip ip_port) \<and>
           length (ip4_uint8 e (ip ip_port)) = 4"
proof -
  define wire where
    "wire = addr\<lparr>ss_family := AF_INET6, ss_port := port ip_port,
              ss_addr6 := (ss_addr6 addr)\<lparr>s6_addr32_0 := 0, s6_addr32_1 := 0,
                            s6_addr32_2 := htonl e 0xFFFF,
                            s6_addr32_3 := ip4_uint32 (ip ip_port)\<rparr>,
              ss_word4 := 0, ss_scope_id := 0\<rparr>"
  have sent: "sendpacket e os net ip_port data len addr w =
             (fst (os (trace w) (Sendto (sock net) data len 0 wire sizeof_sockaddr_in6)),
              w\<lparr>trace := trace w @ [Sendto (sock net) data len 0 wire sizeof_sockaddr_in6],
                errno :=
                  snd (os (trace w) (Sendto (sock net) data len 0 wire sizeof_sockaddr_in6))\<rparr>)"
    using assms families_distinct(1)
    by (simp add: sendpacket_def Let_def syscall_def wire_def split_beta)
  have head: "sin6_family wire = AF_INET6" "sin6_port wire = port ip_port"
    by (simp_all add: wire_def)
  have bytes: "s6_addr e (sin6_addr wire) =
             [0, 0, 0, 0, 0, 0, 0, 0, 0, 0, 0xFF, 0xFF] @ ip4_uint8 e (ip ip_port)"
    by (simp add: wire_def s6_addr_def bytes_of_htonl_FFFF bytes_of_zero ip4_uint8_def)
  have four: "length (ip4_uint8 e (ip ip_port)) = 4"
    by (simp add: ip4_uint8_def length_bytes_of_uint32)
  from sent head bytes four show ?thesis by blast
qed

text \<open>
  C1, witness: three bytes sent through an IPv6 socket to 1.2.3.4, port 33445, on a
  little-endian host; the four bytes of the destination are 1, 2, 3, 4.
\<close>

theorem sendpacket_ipv4_mapped_witness:
  "net_family net6 = AF_INET6 \<and> family (ip \<lparr>ip = ip4_1234, port = 0xA582\<rparr>) = AF_INET \<and>
   ip4_uint8 LittleEndian (ip \<lparr>ip = ip4_1234, port = 0xA582\<rparr>) = [1, 2, 3, 4] \<and>
   (\<exists>wire.
      sendpacket LittleEndian (os_busy 0) net6 \<lparr>ip = ip4_1234, port = 0xA582\<rparr> [7, 1, 2] 3
          sockaddr_zero world_init =
        (fst (os_busy 0 (trace world_init)
                (Sendto (sock net6) [7, 1, 2] 3 0 wire sizeof_sockaddr_in6)),
         world_init\<lparr>trace := trace world_init @
                       [Sendto (sock net6) [7, 1, 2] 3 0 wire sizeof_sockaddr_in6],
                     errno :=
                       snd (os_busy 0 (trace world_init)
                              (Sendto (sock net6) [7, 1, 2] 3 0 wire sizeof_sockaddr_in6))\<rparr>) \<and>
      sin6_family wire = AF_INET6 \<and> sin6_port wire = 0xA582 \<and>
      s6_addr LittleEndian (sin6_addr wire) = [0, 0, 0, 0, 0, 0, 0, 0, 0, 0, 0xFF, 0xFF, 1, 2, 3, 4])"
proof -
  have h1: "net_family net6 = AF_INET6" by (simp add: net6_def)
  have h2: "family (ip \<lparr>ip = ip4_1234, port = 0xA582\<rparr>) = AF_INET" by (simp add: ip4_1234_def)
  have b: "ip4_uint8 LittleEndian (ip \<lparr>ip = ip4_1234, port = 0xA582\<rparr>) = [1, 2, 3, 4]"
    by (simp add: ip4_uint8_def ip4_uint32_def ip4_1234_def bytes_of_uint32_def)
  show ?thesis
    using h1 h2 b
      sendpacket_ipv4_mapped [OF h1 h2, of LittleEndian "os_busy 0" "[7, 1, 2]" 3 sockaddr_zero
        world_init]
    by simp
qed

text \<open>
  C5. A send through a socket bound with family IPv4 to an IPv6 destination returns 0 and
  leaves the world as it was: no call is made.
\<close>

theorem sendpacket_ipv4_socket_ipv6_target:
  assumes "net_family net = AF_INET" and "family (ip ip_port) = AF_INET6"
  shows "sendpacket e os net ip_port data len addr w = (0, w)"
  using assms families_distinct(1) by (simp add: sendpacket_def)

text \<open>C5, witness: three bytes for 102:304::1 through an IPv4 socket.\<close>

theorem sendpacket_ipv4_socket_ipv6_target_witness:
  "net_family net4 = AF_INET \<and> family (ip \<lparr>ip = ip6_1234, port = 0xA582\<rparr>) = AF_INET6 \<and>
   sendpacket LittleEndian (os_busy 0) net4 \<lparr>ip = ip6_1234, port = 0xA582\<rparr> [7, 1, 2] 3
     sockaddr_zero world_init = (0, world_init)"
proof -
  have h1: "net_family net4 = AF_INET" by (simp add: net4_def)
  have h2: "family (ip \<lparr>ip = ip6_1234, port = 0xA582\<rparr>) = AF_INET6" by (simp add: ip6_1234_def)
  show ?thesis
    using h1 h2
      sendpacket_ipv4_socket_ipv6_target [OF h1 h2, of LittleEndian "os_busy 0" "[7, 1, 2]" 3
        sockaddr_zero world_init]
    by simp
qed

section \<open>Properties of receiving and dispatch\<close>

lemma sint_word_of_int_32:
  "- (2 ^ 31) \<le> x \<Longrightarrow> x < 2 ^ 31 \<Longrightarrow> sint (word_of_int x :: 32 word) = x"
  by (simp add: sint_sbintrunc' signed_take_bit_int_eq_self)

lemma uint_word_of_int_32:
  "0 \<le> x \<Longrightarrow> x < 2 ^ 31 \<Longrightarrow> uint (word_of_int x :: 32 word) = x"
  by (simp add: uint_word_of_int take_bit_int_eq_self)

lemma receivepacket_fails:
  assumes "- (2 ^ 31) \<le> rf_ret r" and "rf_ret r < 2 ^ 31" and "\<not> datagram_received r"
  shows "receivepacket r p = (- 1, p, word_of_int (rf_ret r))"
  using assms
  by (auto simp add: receivepacket_def datagram_received_def Let_def sint_word_of_int_32)

lemma receivepacket_succeeds:
  assumes "- (2 ^ 31) \<le> rf_ret r" and "rf_ret r < 2 ^ 31" and "datagram_received r"
  shows "\<exists>s. receivepacket r p = (0, s, word_of_int (rf_ret r)) \<and> sender_of r s"
  using assms
  by (auto simp add: receivepacket_def datagram_received_def Let_def sint_word_of_int_32
      sender_of_def ip4_assign_def ip4_uint32_def AF_INET_def AF_INET6_def)

lemma received_length_not_less_1:
  assumes "0 < x" and "x < 2 ^ 31"
  shows "\<not> (word_of_int x :: 32 word) < 1"
proof -
  have "uint (word_of_int x :: 32 word) = x"
    using assms by (simp add: uint_word_of_int_32)
  with assms show ?thesis by (auto simp add: word_less_def)
qed

text \<open>
  C6. For a value returned by the read that fits 32 bits, as every length of a datagram
  does, \<^verbatim>\<open>receivepacket\<close> returns \<open>-1\<close> exactly when that value is zero or negative or the
  family of the sender's address on the wire is neither IPv4 nor IPv6, and then it
  leaves \<open>ip_port\<close> as it was. In every other case it returns 0 with family, port and
  address of the sender as they are on the wire, and the length read.
\<close>

theorem receivepacket_outcome:
  assumes "- (2 ^ 31) \<le> rf_ret r" and "rf_ret r < 2 ^ 31"
    and "receivepacket r p = (ret, s, len)"
  shows "(ret = - 1 \<longleftrightarrow>
            rf_ret r \<le> 0 \<or>
            (ss_family (rf_addr r) \<noteq> AF_INET \<and> ss_family (rf_addr r) \<noteq> AF_INET6)) \<and>
         (ret = - 1 \<longrightarrow> s = p) \<and>
         (ret \<noteq> - 1 \<longrightarrow> ret = 0 \<and> sender_of r s \<and> uint len = rf_ret r)"
proof (cases "datagram_received r")
  case True
  then obtain s' where "receivepacket r p = (0, s', word_of_int (rf_ret r))" "sender_of r s'"
    using receivepacket_succeeds [OF assms(1,2)] by blast
  with assms True show ?thesis
    by (auto simp add: datagram_received_def uint_word_of_int_32)
next
  case False
  with assms receivepacket_fails [OF assms(1,2) False, of p] show ?thesis
    by (auto simp add: datagram_received_def)
qed

text \<open>
  C6, witness: the datagram of three bytes from 1.2.3.4 is received, and the read that
  returns \<open>-1\<close> is not.
\<close>

theorem receivepacket_outcome_witness:
  "- (2 ^ 31) \<le> rf_ret recv_tag7 \<and> rf_ret recv_tag7 < 2 ^ 31 \<and>
   receivepacket recv_tag7 \<lparr>ip = ip_unset, port = 0\<rparr> =
     (0, \<lparr>ip = ip4_1234, port = 0xA582\<rparr>, 3) \<and>
   sender_of recv_tag7 \<lparr>ip = ip4_1234, port = 0xA582\<rparr> \<and> uint (3 :: uint32_t) = rf_ret recv_tag7 \<and>
   - (2 ^ 31) \<le> rf_ret recv_nothing \<and> rf_ret recv_nothing < 2 ^ 31 \<and>
   receivepacket recv_nothing \<lparr>ip = ip_unset, port = 0\<rparr> =
     (- 1, \<lparr>ip = ip_unset, port = 0\<rparr>, - 1) \<and>
   rf_ret recv_nothing \<le> 0"
proof -
  have a1: "- (2 ^ 31) \<le> rf_ret recv_tag7" and a2: "rf_ret recv_tag7 < 2 ^ 31"
    by (simp_all add: recv_tag7_def)
  have a3: "receivepacket recv_tag7 \<lparr>ip = ip_unset, port = 0\<rparr> =
     (0, \<lparr>ip = ip4_1234, port = 0xA582\<rparr>, 3)"
    by (simp add: receivepacket_def recv_tag7_def from_1234_def sockaddr_zero_def ip_unset_def
        ip4_1234_def ip4_assign_def in6addr_any_def AF_INET_def AF_INET6_def Let_def)
  have b1: "- (2 ^ 31) \<le> rf_ret recv_nothing" and b2: "rf_ret recv_nothing < 2 ^ 31"
    by (simp_all add: recv_nothing_def)
  have b3: "receivepacket recv_nothing \<lparr>ip = ip_unset, port = 0\<rparr> =
     (- 1, \<lparr>ip = ip_unset, port = 0\<rparr>, - 1)"
    by (simp add: receivepacket_def recv_nothing_def Let_def)
  have b4: "rf_ret recv_nothing \<le> 0" by (simp add: recv_nothing_def)
  show ?thesis
    using a1 a2 a3 b1 b2 b3 b4 receivepacket_outcome [OF a1 a2 a3]
      receivepacket_outcome [OF b1 b2 b3]
    by simp
qed

text \<open>
  C9. Registration puts the handler and the context given into the slot of the tag,
  whatever the slot held, and changes neither another slot nor another field of the
  socket object.
\<close>

theorem networking_registerhandler_frame:
  "packethandlers (networking_registerhandler net t h c) t = \<lparr>function' = h, object = c\<rparr> \<and>
   (\<forall>t'. t' \<noteq> t \<longrightarrow>
      packethandlers (networking_registerhandler net t h c) t' = packethandlers net t') \<and>
   net_family (networking_registerhandler net t h c) = net_family net \<and>
   net_port (networking_registerhandler net t h c) = net_port net \<and>
   sock (networking_registerhandler net t h c) = sock net"
  by (simp add: networking_registerhandler_def Let_def)

text \<open>
  C9, witness: a second registration for tag 7 replaces the first, and the slot of tag 8
  stays empty.
\<close>

theorem networking_registerhandler_frame_witness:
  "(8 :: uint8_t) \<noteq> 7 \<and>
   packethandlers (networking_registerhandler (networking_registerhandler net4 7 4096 8192)
      7 4100 8200) 7 = \<lparr>function' = 4100, object = 8200\<rparr> \<and>
   packethandlers (networking_registerhandler (networking_registerhandler net4 7 4096 8192)
      7 4100 8200) 8 = \<lparr>function' = NULL, object = NULL\<rparr> \<and>
   sock (networking_registerhandler (networking_registerhandler net4 7 4096 8192)
      7 4100 8200) = 3"
proof -
  have h: "(8 :: uint8_t) \<noteq> 7" by simp
  have old: "packethandlers (networking_registerhandler net4 7 4096 8192) 8 =
             \<lparr>function' = NULL, object = NULL\<rparr>"
    by (simp add: networking_registerhandler_def net4_def calloc_Networking_Core_def Let_def)
  have s: "sock (networking_registerhandler net4 7 4096 8192) = 3"
    by (simp add: networking_registerhandler_def net4_def calloc_Networking_Core_def Let_def)
  show ?thesis
    using h old s
      networking_registerhandler_frame [of "networking_registerhandler net4 7 4096 8192" 7 4100 8200]
    by simp
qed

text \<open>
  C4. Let the pending datagrams give the outcomes \<open>rs\<close> of the successive reads, each
  value returned fitting 32 bits. The datagrams received are those before the first
  read that fails. The handler calls of \<^verbatim>\<open>networking_poll\<close> are, one for one and in the same
  order, the dispatches of the received datagrams that have at least one byte and a
  handler registered for their first byte: each such datagram gives exactly one call,
  with the function and the context of its slot, its sender, and its whole content with
  its whole length; a received datagram whose first byte has no handler gives no call.
  With nothing pending there is no call.
\<close>

theorem networking_poll_dispatch:
  assumes "\<forall>r\<in>set rs. - (2 ^ 31) \<le> rf_ret r \<and> rf_ret r < 2 ^ 31"
  shows "list_all2 (dispatched net)
           (filter (\<lambda>r. 1 \<le> rf_ret r \<and> registered net r) (takeWhile datagram_received rs))
           (networking_poll net rs p) \<and>
         networking_poll net [] p = []"
proof -
  have "list_all2 (dispatched net)
           (filter (\<lambda>r. 1 \<le> rf_ret r \<and> registered net r) (takeWhile datagram_received rs))
           (networking_poll net rs p)"
    using assms
  proof (induction rs arbitrary: p)
    case Nil
    then show ?case by simp
  next
    case (Cons r rs)
    then have rng: "- (2 ^ 31) \<le> rf_ret r" "rf_ret r < 2 ^ 31" by simp_all
    show ?case
    proof (cases "datagram_received r")
      case False
      then show ?thesis using receivepacket_fails [OF rng False, of p] by simp
    next
      case True
      then obtain s where s: "receivepacket r p = (0, s, word_of_int (rf_ret r))" "sender_of r s"
        using receivepacket_succeeds [OF rng True, of p] by blast
      from True have pos: "0 < rf_ret r" by (simp add: datagram_received_def)
      have rest: "list_all2 (dispatched net)
             (filter (\<lambda>r. 1 \<le> rf_ret r \<and> registered net r) (takeWhile datagram_received rs))
             (networking_poll net rs s)"
        using Cons by simp
      show ?thesis
        using True s pos rest received_length_not_less_1 [OF pos rng(2)]
          uint_word_of_int_32 [of "rf_ret r"] rng
        by (simp add: registered_def)
    qed
  qed
  then show ?thesis by simp
qed

text \<open>
  C4, witness: a handler is registered for tag 7 and none for tag 8; a datagram with tag
  7, one with tag 8 and then nothing to read give one call, for the first datagram.
\<close>

theorem networking_poll_dispatch_witness:
  "list_all (\<lambda>r. - (2 ^ 31) \<le> rf_ret r \<and> rf_ret r < 2 ^ 31)
     [recv_tag7, recv_tag8, recv_nothing] \<and>
   list_all2 (dispatched (networking_registerhandler net4 7 4096 8192))
     (filter (\<lambda>r. 1 \<le> rf_ret r \<and> registered (networking_registerhandler net4 7 4096 8192) r)
        (takeWhile datagram_received [recv_tag7, recv_tag8, recv_nothing]))
     (networking_poll (networking_registerhandler net4 7 4096 8192)
        [recv_tag7, recv_tag8, recv_nothing] \<lparr>ip = ip_unset, port = 0\<rparr>) \<and>
   networking_poll (networking_registerhandler net4 7 4096 8192)
     [recv_tag7, recv_tag8, recv_nothing] \<lparr>ip = ip_unset, port = 0\<rparr> =
     [Handler_call 4096 8192 \<lparr>ip = ip4_1234, port = 0xA582\<rparr> [7, 1, 2] 3]"
proof -
  have h: "\<forall>r\<in>set [recv_tag7, recv_tag8, recv_nothing]. - (2 ^ 31) \<le> rf_ret r \<and> rf_ret r < 2 ^ 31"
    by (simp add: recv_tag7_def recv_tag8_def recv_nothing_def)
  have l: "list_all (\<lambda>r. - (2 ^ 31) \<le> rf_ret r \<and> rf_ret r < 2 ^ 31)
             [recv_tag7, recv_tag8, recv_nothing]"
    using h by (simp add: list_all_iff)
  have run: "networking_poll (networking_registerhandler net4 7 4096 8192)
     [recv_tag7, recv_tag8, recv_nothing] \<lparr>ip = ip_unset, port = 0\<rparr> =
     [Handler_call 4096 8192 \<lparr>ip = ip4_1234, port = 0xA582\<rparr> [7, 1, 2] 3]"
    by (simp add: receivepacket_def recv_tag7_def recv_tag8_def recv_nothing_def from_1234_def
        sockaddr_zero_def ip_unset_def ip4_1234_def ip4_assign_def in6addr_any_def AF_INET_def
        AF_INET6_def Let_def networking_registerhandler_def net4_def calloc_Networking_Core_def
        NULL_def)
  from networking_poll_dispatch [OF h, of "networking_registerhandler net4 7 4096 8192"
      "\<lparr>ip = ip_unset, port = 0\<rparr>"]
  have "list_all2 (dispatched (networking_registerhandler net4 7 4096 8192))
     (filter (\<lambda>r. 1 \<le> rf_ret r \<and> registered (networking_registerhandler net4 7 4096 8192) r)
        (takeWhile datagram_received [recv_tag7, recv_tag8, recv_nothing]))
     (networking_poll (networking_registerhandler net4 7 4096 8192)
        [recv_tag7, recv_tag8, recv_nothing] \<lparr>ip = ip_unset, port = 0\<rparr>)"
    by (rule conjunct1)
  with l run show ?thesis by (intro conjI)
qed

section \<open>Properties of socket creation\<close>

declare bind_loop.simps [simp del]

lemma bswap_16_involution: "bswap_16 (bswap_16 x) = x"
  unfolding bswap_16_def
  by (rule bit_word_eqI) (auto simp add: bit_simps)

lemma ntohs_htons: "ntohs e (htons e x) = x"
  by (cases e) (simp_all add: ntohs_def htons_def bswap_16_involution)

lemma bind_attempts_Suc:
  "bind_attempts e temp addr n p (Suc k) =
     Bind (sock temp) (addr\<lparr>ss_port := htons e p\<rparr>) n
     # bind_attempts e temp (addr\<lparr>ss_port := htons e (p + 1)\<rparr>) n (p + 1) k"
proof -
  have "[0..<Suc k] = 0 # map Suc [0..<k]"
    by (simp only: map_Suc_upt) (rule upt_conv_Cons, simp)
  then show ?thesis
    by (simp add: bind_attempts_def comp_def add.assoc del: upt_Suc)
qed

lemma bind_result_0:
  assumes "ss_port addr = htons e p"
  shows "bind_result os e temp addr n p w 0 = os (trace w) (Bind (sock temp) addr n)"
proof -
  have "addr\<lparr>ss_port := htons e p\<rparr> = addr" using assms by simp
  then show ?thesis by (simp add: bind_result_def bind_attempts_def)
qed

lemma bind_result_Suc:
  assumes "ss_port addr = htons e p"
  shows "bind_result os e temp (addr\<lparr>ss_port := htons e (p + 1)\<rparr>) n (p + 1)
           (w\<lparr>trace := trace w @ [Bind (sock temp) addr n], errno := en\<rparr>) j =
         bind_result os e temp addr n p w (Suc j)"
proof -
  have "addr\<lparr>ss_port := htons e p\<rparr> = addr" using assms by simp
  then show ?thesis
    by (simp add: bind_result_def bind_attempts_Suc add.assoc del: upt_Suc)
qed

text \<open>One failed attempt: the loop goes on with the next port and one try less.\<close>

lemma bind_loop_step:
  assumes "ss_port addr = htons e p" and "t < 9"
    and "fst (os (trace w) (Bind (sock temp) addr n)) \<noteq> 0"
  shows "bind_loop e os temp addr n t w =
         bind_loop e os temp (addr\<lparr>ss_port := htons e (p + 1)\<rparr>) n (Suc t)
           (w\<lparr>trace := trace w @ [Bind (sock temp) addr n],
              errno := snd (os (trace w) (Bind (sock temp) addr n))\<rparr>)"
  using assms
  by (subst bind_loop.simps) (simp add: syscall_def Let_def ntohs_htons split_beta)

lemma bind_loop_success:
  assumes "ss_port addr = htons e p" and "t + k < 9"
    and "\<forall>j<k. fst (bind_result os e temp addr n p w j) \<noteq> 0"
    and "fst (bind_result os e temp addr n p w k) = 0"
  shows "bind_loop e os temp addr n t w =
           (Some (temp\<lparr>net_port := htons e (p + of_nat k)\<rparr>),
            w\<lparr>trace := trace w @ bind_attempts e temp addr n p (Suc k),
              errno := snd (bind_result os e temp addr n p w k)\<rparr>)"
  using assms
proof (induction k arbitrary: addr p t w)
  case 0
  have same: "addr\<lparr>ss_port := htons e p\<rparr> = addr" using 0 by simp
  from 0 show ?case
    by (subst bind_loop.simps)
       (simp add: bind_result_0 syscall_def bind_attempts_def same split_beta)
next
  case (Suc k)
  let ?addr1 = "addr\<lparr>ss_port := htons e (p + 1)\<rparr>"
  let ?w1 = "w\<lparr>trace := trace w @ [Bind (sock temp) addr n],
                errno := snd (os (trace w) (Bind (sock temp) addr n))\<rparr>"
  have same: "addr\<lparr>ss_port := htons e p\<rparr> = addr" using Suc.prems by simp
  have failed: "fst (os (trace w) (Bind (sock temp) addr n)) \<noteq> 0"
    using Suc.prems(1,3) bind_result_0 [of addr e p os temp n w] by auto
  have "bind_loop e os temp addr n t w = bind_loop e os temp ?addr1 n (Suc t) ?w1"
    using Suc.prems(1,2) failed by (intro bind_loop_step) simp_all
  also have "\<dots> =
           (Some (temp\<lparr>net_port := htons e (p + 1 + of_nat k)\<rparr>),
            ?w1\<lparr>trace := trace ?w1 @ bind_attempts e temp ?addr1 n (p + 1) (Suc k),
              errno := snd (bind_result os e temp ?addr1 n (p + 1) ?w1 k)\<rparr>)"
  proof (rule Suc.IH)
    show "ss_port ?addr1 = htons e (p + 1)" by simp
    show "Suc t + k < 9" using Suc.prems by simp
    show "\<forall>j<k. fst (bind_result os e temp ?addr1 n (p + 1) ?w1 j) \<noteq> 0"
      using Suc.prems(3) by (simp add: bind_result_Suc [OF Suc.prems(1)])
    show "fst (bind_result os e temp ?addr1 n (p + 1) ?w1 k) = 0"
      using Suc.prems(4) by (simp add: bind_result_Suc [OF Suc.prems(1)])
  qed
  also have "\<dots> =
           (Some (temp\<lparr>net_port := htons e (p + of_nat (Suc k))\<rparr>),
            w\<lparr>trace := trace w @ bind_attempts e temp addr n p (Suc (Suc k)),
              errno := snd (bind_result os e temp addr n p w (Suc k))\<rparr>)"
    by (simp add: bind_result_Suc [OF Suc.prems(1)]
        bind_attempts_Suc [of e temp addr n p "Suc k"] same add.assoc)
  finally show ?case .
qed

lemma bind_loop_exhausted:
  assumes "ss_port addr = htons e p" and "t + m = 9"
    and "\<forall>j<m. fst (bind_result os e temp addr n p w j) \<noteq> 0"
  shows "bind_loop e os temp addr n t w =
           (None,
            w\<lparr>trace := trace w @ bind_attempts e temp addr n p m,
              errno := (case m of 0 \<Rightarrow> errno w
                        | Suc j \<Rightarrow> snd (bind_result os e temp addr n p w j))\<rparr>)"
  using assms
proof (induction m arbitrary: addr p t w)
  case 0
  then show ?case
    by (subst bind_loop.simps) (simp add: bind_attempts_def)
next
  case (Suc m)
  let ?addr1 = "addr\<lparr>ss_port := htons e (p + 1)\<rparr>"
  let ?w1 = "w\<lparr>trace := trace w @ [Bind (sock temp) addr n],
                errno := snd (os (trace w) (Bind (sock temp) addr n))\<rparr>"
  have same: "addr\<lparr>ss_port := htons e p\<rparr> = addr" using Suc.prems by simp
  have failed: "fst (os (trace w) (Bind (sock temp) addr n)) \<noteq> 0"
    using Suc.prems(1,3) bind_result_0 [of addr e p os temp n w] by auto
  have "bind_loop e os temp addr n t w = bind_loop e os temp ?addr1 n (Suc t) ?w1"
    using Suc.prems(1,2) failed by (intro bind_loop_step) simp_all
  also have "\<dots> =
           (None,
            ?w1\<lparr>trace := trace ?w1 @ bind_attempts e temp ?addr1 n (p + 1) m,
              errno := (case m of 0 \<Rightarrow> errno ?w1
                        | Suc j \<Rightarrow> snd (bind_result os e temp ?addr1 n (p + 1) ?w1 j))\<rparr>)"
  proof (rule Suc.IH)
    show "ss_port ?addr1 = htons e (p + 1)" by simp
    show "Suc t + m = 9" using Suc.prems by simp
    show "\<forall>j<m. fst (bind_result os e temp ?addr1 n (p + 1) ?w1 j) \<noteq> 0"
      using Suc.prems(3) by (simp add: bind_result_Suc [OF Suc.prems(1)])
  qed
  also have "\<dots> =
           (None,
            w\<lparr>trace := trace w @ bind_attempts e temp addr n p (Suc m),
              errno := snd (bind_result os e temp addr n p w m)\<rparr>)"
    by (simp add: bind_result_Suc [OF Suc.prems(1)] bind_attempts_Suc [of e temp addr n p m] same
        bind_result_0 [OF Suc.prems(1)] split: nat.splits)
  finally show ?case by simp
qed

lemma bind_result_os_busy:
  "bind_result (os_busy k) e temp addr n p w j =
     (if length (filter is_Bind (trace w)) + j < k then (- 1, 98) else (0, 0))"
proof -
  have "filter is_Bind (bind_attempts e temp addr n p j) = bind_attempts e temp addr n p j"
    by (simp add: bind_attempts_def is_Bind_def filter_map comp_def)
  moreover have "length (bind_attempts e temp addr n p j) = j"
    by (simp add: bind_attempts_def)
  ultimately show ?thesis
    by (simp add: bind_result_def os_busy_def)
qed

lemma at_startup_returns_0: "fst (at_startup os w) = 0"
  by (simp add: at_startup_def Let_def split_beta)

text \<open>The outcome of the loop, the message and the release, for a first port \<open>p\<close>.\<close>

lemma bind_retry_outcome:
  assumes "ss_port addr = htons e p"
  shows "(k < 9 \<and> (\<forall>j<k. fst (bind_result os e temp addr n p w j) \<noteq> 0) \<and>
          fst (bind_result os e temp addr n p w k) = 0 \<longrightarrow>
          bind_retry e os temp addr n a p w =
            (Some (temp\<lparr>net_port := htons e (p + of_nat k)\<rparr>),
             w\<lparr>trace := trace w @ bind_attempts e temp addr n p (Suc k),
               errno := snd (bind_result os e temp addr n p w k)\<rparr>)) \<and>
         ((\<forall>j<9. fst (bind_result os e temp addr n p w j) \<noteq> 0) \<longrightarrow>
          bind_retry e os temp addr n a p w =
            (None,
             w\<lparr>trace := trace w @ bind_attempts e temp addr n p 9 @
                  [Printf_failed_to_bind (snd (bind_result os e temp addr n p w 8)) a p,
                   Free_Networking_Core],
               errno := snd (bind_result os e temp addr n p w 8)\<rparr>))"
proof (intro conjI impI)
  assume "k < 9 \<and> (\<forall>j<k. fst (bind_result os e temp addr n p w j) \<noteq> 0) \<and>
          fst (bind_result os e temp addr n p w k) = 0"
  then show "bind_retry e os temp addr n a p w =
            (Some (temp\<lparr>net_port := htons e (p + of_nat k)\<rparr>),
             w\<lparr>trace := trace w @ bind_attempts e temp addr n p (Suc k),
               errno := snd (bind_result os e temp addr n p w k)\<rparr>)"
    using bind_loop_success [OF assms, of 0 k os temp n w]
    by (simp add: bind_retry_def)
next
  assume "\<forall>j<9. fst (bind_result os e temp addr n p w j) \<noteq> 0"
  then show "bind_retry e os temp addr n a p w =
            (None,
             w\<lparr>trace := trace w @ bind_attempts e temp addr n p 9 @
                  [Printf_failed_to_bind (snd (bind_result os e temp addr n p w 8)) a p,
                   Free_Networking_Core],
               errno := snd (bind_result os e temp addr n p w 8)\<rparr>)"
    using bind_loop_exhausted [OF assms, of 0 9 os temp n w]
    by (simp add: bind_retry_def emit_def Let_def eval_nat_numeral)
qed

text \<open>
  From the call of \<^verbatim>\<open>new_networking\<close> to its loop: when the family is IPv4 or IPv6, the
  allocation succeeds and the socket is created, the function goes on to bind, with the
  address, the size and the state given here.
\<close>

lemma new_networking_reaches_bind:
  assumes "family a = AF_INET \<or> family a = AF_INET6"
    and "w1 = snd (at_startup os w)"
    and "fst (os (trace w1) Calloc_Networking_Core) \<noteq> 0"
    and "s = fst (os (trace w1 @ [Calloc_Networking_Core])
                    (Socket (family a) SOCK_DGRAM IPPROTO_UDP))"
    and "0 \<le> s"
    and "calls = [Calloc_Networking_Core, Socket (family a) SOCK_DGRAM IPPROTO_UDP,
                  Setsockopt s SOL_SOCKET SO_BROADCAST 1 4, Fcntl s F_SETFL O_NONBLOCK 1] @
                 (if family a = AF_INET6 then [Setsockopt s IPPROTO_IPV6 IPV6_V6ONLY 0 1]
                  else [])"
  shows "new_networking e os a p addr w =
         bind_retry e os (calloc_Networking_Core\<lparr>net_family := family a, sock := s\<rparr>)
           (if family a = AF_INET
            then addr\<lparr>ss_family := AF_INET, ss_port := htons e p, ss_word4 := ip4_uint32 a\<rparr>
            else addr\<lparr>ss_family := AF_INET6, ss_port := htons e p, ss_addr6 := ip6 a,
                      ss_word4 := 0, ss_scope_id := 0\<rparr>)
           (if family a = AF_INET then sizeof_sockaddr_in else sizeof_sockaddr_in6) a p
           (w1\<lparr>trace := trace w1 @ calls,
               errno := snd (os (trace w1 @ butlast calls) (last calls))\<rparr>)"
proof -
  have started: "at_startup os w = (0, w1)"
    using at_startup_returns_0 [of os w] assms(2) by (cases "at_startup os w") simp
  from assms(1) show ?thesis
  proof
    assume "family a = AF_INET"
    then show ?thesis
      using assms(3,4,5) families_distinct(1)
      by (simp add: new_networking_def started syscall_def Let_def split_beta
          calloc_Networking_Core_def assms(6))
  next
    assume "family a = AF_INET6"
    then show ?thesis
      using assms(3,4,5) families_distinct(1)
      by (simp add: new_networking_def started syscall_def Let_def split_beta
          calloc_Networking_Core_def assms(6))
  qed
qed

text \<open>
  C2, as stated, fails, on a big-endian host (where the port on the wire reads as the
  number) in two runs. In the first every \<^verbatim>\<open>bind\<close> fails with error 98 and the port asked
  for is 33445: the operation fails, the last attempt was at port 33453 and the message
  carries port 33445. In the second the port asked for is 65535 and the first \<^verbatim>\<open>bind\<close>
  fails: the next attempt is at port 0 and succeeds, so the kernel binds a port it
  chooses, say 49152, and the port recorded is 0.
\<close>

theorem new_networking_port_counterexample:
  "fst (new_networking BigEndian (os_busy 9) ip4_any 33445 sockaddr_zero world_init) = None \<and>
   drop 16 (trace (snd (new_networking BigEndian (os_busy 9) ip4_any 33445 sockaddr_zero
                          world_init))) =
     [Bind 3 (sockaddr_zero\<lparr>ss_family := AF_INET, ss_port := 33453\<rparr>) sizeof_sockaddr_in,
      Printf_failed_to_bind 98 ip4_any 33445,
      Free_Networking_Core] \<and>
   fst (new_networking BigEndian (os_busy 1) ip4_any 65535 sockaddr_zero world_init) =
     Some (calloc_Networking_Core\<lparr>net_family := AF_INET, net_port := 0, sock := 3\<rparr>) \<and>
   drop 8 (trace (snd (new_networking BigEndian (os_busy 1) ip4_any 65535 sockaddr_zero
                         world_init))) =
     [Bind 3 (sockaddr_zero\<lparr>ss_family := AF_INET, ss_port := 65535\<rparr>) sizeof_sockaddr_in,
      Bind 3 (sockaddr_zero\<lparr>ss_family := AF_INET, ss_port := 0\<rparr>) sizeof_sockaddr_in] \<and>
   bound_port 49152 0 = 49152"
  by (simp add: new_networking_def at_startup_def current_time_def syscall_def emit_def Let_def
      bind_retry_def bind_loop.simps os_busy_def is_Bind_def world_init_def sockaddr_zero_def
      ip4_any_def in6addr_any_def AF_INET_def AF_INET6_def calloc_Networking_Core_def htons_def
      ntohs_def ip4_uint32_def bound_port_def)

text \<open>
  C2, amended. Let \<^verbatim>\<open>new_networking\<close> be called for the address \<open>a\<close>, IPv4 or IPv6, and the
  port \<open>p\<close>, and let the allocation and the creation of the socket succeed. Attempt \<open>j\<close>
  asks to bind the socket to \<open>a\<close> and port \<open>p + j\<close>, the sum taken in 16 bits, so that
  65535 is followed by 0; an attempt is made when all before it failed, and there are at
  most nine. If attempt \<open>k\<close> is the first to succeed (\<open>k\<close> from 0 to 8), nothing is called
  after it and the socket is returned with the port asked for in that attempt recorded,
  in network byte order; unless that port is 0 it is the port the kernel has bound. If
  all nine attempts fail, the result is \<open>None\<close>; the message carries the error of the last
  attempt, the address \<open>a\<close> and the port \<open>p\<close> that was asked for, which is the port of the
  first attempt, and the object is released.
\<close>

theorem new_networking_bind_attempts:
  assumes "family a = AF_INET \<or> family a = AF_INET6"
  shows "let w1 = snd (at_startup os w);
             s = fst (os (trace w1 @ [Calloc_Networking_Core])
                        (Socket (family a) SOCK_DGRAM IPPROTO_UDP));
             calls = [Calloc_Networking_Core, Socket (family a) SOCK_DGRAM IPPROTO_UDP,
                      Setsockopt s SOL_SOCKET SO_BROADCAST 1 4, Fcntl s F_SETFL O_NONBLOCK 1] @
                     (if family a = AF_INET6 then [Setsockopt s IPPROTO_IPV6 IPV6_V6ONLY 0 1]
                      else []);
             temp = calloc_Networking_Core\<lparr>net_family := family a, sock := s\<rparr>;
             addr0 = (if family a = AF_INET
                      then addr\<lparr>ss_family := AF_INET, ss_port := htons e p,
                                ss_word4 := ip4_uint32 a\<rparr>
                      else addr\<lparr>ss_family := AF_INET6, ss_port := htons e p, ss_addr6 := ip6 a,
                                ss_word4 := 0, ss_scope_id := 0\<rparr>);
             n = (if family a = AF_INET then sizeof_sockaddr_in else sizeof_sockaddr_in6);
             w5 = w1\<lparr>trace := trace w1 @ calls,
                      errno := snd (os (trace w1 @ butlast calls) (last calls))\<rparr>
         in fst (os (trace w1) Calloc_Networking_Core) \<noteq> 0 \<and> 0 \<le> s \<longrightarrow>
            (k < 9 \<and> (\<forall>j<k. fst (bind_result os e temp addr0 n p w5 j) \<noteq> 0) \<and>
             fst (bind_result os e temp addr0 n p w5 k) = 0 \<longrightarrow>
             new_networking e os a p addr w =
               (Some (temp\<lparr>net_port := htons e (p + of_nat k)\<rparr>),
                w5\<lparr>trace := trace w5 @ bind_attempts e temp addr0 n p (Suc k),
                   errno := snd (bind_result os e temp addr0 n p w5 k)\<rparr>) \<and>
             (p + of_nat k \<noteq> 0 \<longrightarrow>
              ntohs e (net_port (temp\<lparr>net_port := htons e (p + of_nat k)\<rparr>)) =
                bound_port chosen (p + of_nat k))) \<and>
            ((\<forall>j<9. fst (bind_result os e temp addr0 n p w5 j) \<noteq> 0) \<longrightarrow>
             new_networking e os a p addr w =
               (None,
                w5\<lparr>trace := trace w5 @ bind_attempts e temp addr0 n p 9 @
                     [Printf_failed_to_bind (snd (bind_result os e temp addr0 n p w5 8)) a p,
                      Free_Networking_Core],
                   errno := snd (bind_result os e temp addr0 n p w5 8)\<rparr>))"
proof -
  define w1 where "w1 = snd (at_startup os w)"
  define s where
    "s = fst (os (trace w1 @ [Calloc_Networking_Core]) (Socket (family a) SOCK_DGRAM IPPROTO_UDP))"
  define calls where
    "calls = [Calloc_Networking_Core, Socket (family a) SOCK_DGRAM IPPROTO_UDP,
              Setsockopt s SOL_SOCKET SO_BROADCAST 1 4, Fcntl s F_SETFL O_NONBLOCK 1] @
             (if family a = AF_INET6 then [Setsockopt s IPPROTO_IPV6 IPV6_V6ONLY 0 1] else [])"
  define temp where "temp = calloc_Networking_Core\<lparr>net_family := family a, sock := s\<rparr>"
  define addr0 where
    "addr0 = (if family a = AF_INET
              then addr\<lparr>ss_family := AF_INET, ss_port := htons e p, ss_word4 := ip4_uint32 a\<rparr>
              else addr\<lparr>ss_family := AF_INET6, ss_port := htons e p, ss_addr6 := ip6 a,
                        ss_word4 := 0, ss_scope_id := 0\<rparr>)"
  define n where "n = (if family a = AF_INET then sizeof_sockaddr_in else sizeof_sockaddr_in6)"
  define w5 where
    "w5 = w1\<lparr>trace := trace w1 @ calls,
             errno := snd (os (trace w1 @ butlast calls) (last calls))\<rparr>"
  have port: "ss_port addr0 = htons e p" by (simp add: addr0_def)
  have reach: "new_networking e os a p addr w = bind_retry e os temp addr0 n a p w5"
    if "fst (os (trace w1) Calloc_Networking_Core) \<noteq> 0" and "0 \<le> s"
    unfolding temp_def addr0_def n_def w5_def
    by (rule new_networking_reaches_bind [OF assms w1_def that(1) s_def that(2) calls_def])
  have recorded: "ntohs e (net_port (temp\<lparr>net_port := htons e (p + of_nat k)\<rparr>)) =
                    bound_port chosen (p + of_nat k)"
    if "p + of_nat k \<noteq> 0"
    using that by (simp add: bound_port_def ntohs_htons)
  from reach recorded bind_retry_outcome [OF port, of k os temp n w5 a]
  show ?thesis
    unfolding Let_def w1_def [symmetric] s_def [symmetric] calls_def [symmetric]
      temp_def [symmetric] addr0_def [symmetric] n_def [symmetric] w5_def [symmetric]
    by simp
qed

text \<open>
  C2, witness, on a big-endian host for the address 0.0.0.0 and port 33445: with ports
  33445 and 33446 taken the third attempt succeeds and port 33447, the port bound, is
  recorded; with every attempt failing the result is \<open>None\<close> and the message carries port
  33445.
\<close>

theorem new_networking_bind_attempts_witness:
  "(family ip4_any = AF_INET \<or> family ip4_any = AF_INET6) \<and>
   fst (new_networking BigEndian (os_busy 2) ip4_any 33445 sockaddr_zero world_init) =
     Some (calloc_Networking_Core\<lparr>net_family := AF_INET, sock := 3, net_port := 33447\<rparr>) \<and>
   ntohs BigEndian 33447 = bound_port 49152 33447 \<and>
   new_networking BigEndian (os_busy 9) ip4_any 33445 sockaddr_zero world_init =
     (None,
      \<lparr>trace =
         [Current_time, Srandom 3350818816, Current_time, Srand 3350818816,
          Calloc_Networking_Core, Socket AF_INET SOCK_DGRAM IPPROTO_UDP,
          Setsockopt 3 SOL_SOCKET SO_BROADCAST 1 4, Fcntl 3 F_SETFL O_NONBLOCK 1] @
         bind_attempts BigEndian
           (calloc_Networking_Core\<lparr>net_family := AF_INET, sock := 3\<rparr>)
           (sockaddr_zero\<lparr>ss_family := AF_INET, ss_port := 33445\<rparr>) sizeof_sockaddr_in 33445 9 @
         [Printf_failed_to_bind 98 ip4_any 33445, Free_Networking_Core],
       errno = 98, at_startup_ran = 1\<rparr>)"
proof -
  have h: "family ip4_any = AF_INET \<or> family ip4_any = AF_INET6" by (simp add: ip4_any_def)
  have w1: "snd (at_startup (os_busy k) world_init) =
            \<lparr>trace = [Current_time, Srandom 3350818816, Current_time, Srand 3350818816],
             errno = 0, at_startup_ran = 1\<rparr>" for k
    by (simp add: at_startup_def current_time_def syscall_def emit_def Let_def os_busy_def
        world_init_def)
  have fam: "family ip4_any = AF_INET" "ip4_uint32 ip4_any = 0"
    by (simp_all add: ip4_any_def ip4_uint32_def in6addr_any_def)
  have zero: "sockaddr_zero\<lparr>ss_family := AF_INET, ss_port := 33445, ss_word4 := 0\<rparr> =
              sockaddr_zero\<lparr>ss_family := AF_INET, ss_port := 33445\<rparr>"
    by (simp add: sockaddr_zero_def)
  have r2: "fst (new_networking BigEndian (os_busy 2) ip4_any 33445 sockaddr_zero world_init) =
     Some (calloc_Networking_Core\<lparr>net_family := AF_INET, sock := 3, net_port := 33447\<rparr>)"
    using new_networking_bind_attempts [OF h, where os = "os_busy 2" and w = world_init
        and addr = sockaddr_zero and e = BigEndian and p = 33445 and k = 2 and chosen = 49152]
    by (simp add: Let_def w1 fam families_distinct families_distinct(1) [symmetric]
        bind_result_os_busy is_Bind_def htons_def os_busy_def)
  have b2: "ntohs BigEndian 33447 = bound_port 49152 33447"
    by (simp add: ntohs_def bound_port_def)
  have r9: "new_networking BigEndian (os_busy 9) ip4_any 33445 sockaddr_zero world_init =
     (None,
      \<lparr>trace =
         [Current_time, Srandom 3350818816, Current_time, Srand 3350818816,
          Calloc_Networking_Core, Socket AF_INET SOCK_DGRAM IPPROTO_UDP,
          Setsockopt 3 SOL_SOCKET SO_BROADCAST 1 4, Fcntl 3 F_SETFL O_NONBLOCK 1] @
         bind_attempts BigEndian
           (calloc_Networking_Core\<lparr>net_family := AF_INET, sock := 3\<rparr>)
           (sockaddr_zero\<lparr>ss_family := AF_INET, ss_port := 33445\<rparr>) sizeof_sockaddr_in 33445 9 @
         [Printf_failed_to_bind 98 ip4_any 33445, Free_Networking_Core],
       errno = 98, at_startup_ran = 1\<rparr>)"
    using new_networking_bind_attempts [OF h, where os = "os_busy 9" and w = world_init
        and addr = sockaddr_zero and e = BigEndian and p = 33445 and k = 2 and chosen = 49152]
    by (simp add: Let_def w1 fam families_distinct families_distinct(1) [symmetric]
        bind_result_os_busy is_Bind_def htons_def os_busy_def zero)
  from h r2 b2 r9 show ?thesis by (intro conjI)
qed

text \<open>
  C7, as stated, fails. For an IPv6 address the calls of \<^verbatim>\<open>new_networking\<close>, on a system
  where the first \<^verbatim>\<open>bind\<close> succeeds, are the following: the one request for the option
  \<^verbatim>\<open>IPV6_V6ONLY\<close> carries the value 0, in one byte. It asks for the IPv6-only mode to be
  off, not on.
\<close>

theorem new_networking_v6only_counterexample:
  "trace (snd (new_networking BigEndian (os_busy 0) ip6_any 33445 sockaddr_zero world_init)) =
     [Current_time, Srandom 3350818816, Current_time, Srand 3350818816,
      Calloc_Networking_Core, Socket AF_INET6 SOCK_DGRAM IPPROTO_UDP,
      Setsockopt 3 SOL_SOCKET SO_BROADCAST 1 4, Fcntl 3 F_SETFL O_NONBLOCK 1,
      Setsockopt 3 IPPROTO_IPV6 IPV6_V6ONLY 0 1,
      Bind 3 (sockaddr_zero\<lparr>ss_family := AF_INET6, ss_port := 33445\<rparr>) sizeof_sockaddr_in6]"
  by (simp add: new_networking_def at_startup_def current_time_def syscall_def emit_def Let_def
      bind_retry_def bind_loop.simps os_busy_def is_Bind_def world_init_def sockaddr_zero_def
      ip6_any_def in6addr_any_def AF_INET_def AF_INET6_def calloc_Networking_Core_def htons_def)

text \<open>
  C7, amended. For an IPv6 address, once the object is allocated and the socket created,
  \<^verbatim>\<open>new_networking\<close> enables broadcast, sets the socket non-blocking and then asks for the
  option \<^verbatim>\<open>IPV6_V6ONLY\<close> with the value 0, in one byte: what it requests is that the
  IPv6-only mode be off. It does not look at what the request returns: whether the
  request succeeds or fails, the binding follows from the state after it, and if the
  first \<^verbatim>\<open>bind\<close> then succeeds the socket is returned.
\<close>

theorem new_networking_v6only:
  assumes "family a = AF_INET6"
  shows "let w1 = snd (at_startup os w);
             s = fst (os (trace w1 @ [Calloc_Networking_Core])
                        (Socket AF_INET6 SOCK_DGRAM IPPROTO_UDP));
             calls = [Calloc_Networking_Core, Socket AF_INET6 SOCK_DGRAM IPPROTO_UDP,
                      Setsockopt s SOL_SOCKET SO_BROADCAST 1 4, Fcntl s F_SETFL O_NONBLOCK 1];
             v6only = Setsockopt s IPPROTO_IPV6 IPV6_V6ONLY 0 1;
             temp = calloc_Networking_Core\<lparr>net_family := AF_INET6, sock := s\<rparr>;
             addr6 = addr\<lparr>ss_family := AF_INET6, ss_port := htons e p, ss_addr6 := ip6 a,
                          ss_word4 := 0, ss_scope_id := 0\<rparr>;
             w5 = w1\<lparr>trace := trace w1 @ calls @ [v6only],
                      errno := snd (os (trace w1 @ calls) v6only)\<rparr>
         in fst (os (trace w1) Calloc_Networking_Core) \<noteq> 0 \<and> 0 \<le> s \<longrightarrow>
            new_networking e os a p addr w =
              bind_retry e os temp addr6 sizeof_sockaddr_in6 a p w5 \<and>
            (fst (os (trace w5) (Bind s addr6 sizeof_sockaddr_in6)) = 0 \<longrightarrow>
             fst (new_networking e os a p addr w) = Some (temp\<lparr>net_port := htons e p\<rparr>))"
proof -
  define w1 where "w1 = snd (at_startup os w)"
  define s where
    "s = fst (os (trace w1 @ [Calloc_Networking_Core]) (Socket AF_INET6 SOCK_DGRAM IPPROTO_UDP))"
  define calls where
    "calls = [Calloc_Networking_Core, Socket AF_INET6 SOCK_DGRAM IPPROTO_UDP,
              Setsockopt s SOL_SOCKET SO_BROADCAST 1 4, Fcntl s F_SETFL O_NONBLOCK 1]"
  define temp where "temp = calloc_Networking_Core\<lparr>net_family := AF_INET6, sock := s\<rparr>"
  define addr6 where
    "addr6 = addr\<lparr>ss_family := AF_INET6, ss_port := htons e p, ss_addr6 := ip6 a,
                  ss_word4 := 0, ss_scope_id := 0\<rparr>"
  define w5 where
    "w5 = w1\<lparr>trace := trace w1 @ calls @ [Setsockopt s IPPROTO_IPV6 IPV6_V6ONLY 0 1],
             errno := snd (os (trace w1 @ calls) (Setsockopt s IPPROTO_IPV6 IPV6_V6ONLY 0 1))\<rparr>"
  have started: "at_startup os w = (0, w1)"
    using at_startup_returns_0 [of os w] by (cases "at_startup os w") (simp add: w1_def)
  have reach: "new_networking e os a p addr w =
                 bind_retry e os temp addr6 sizeof_sockaddr_in6 a p w5"
    if "fst (os (trace w1) Calloc_Networking_Core) \<noteq> 0" and "0 \<le> s"
    using that assms families_distinct(1)
    by (simp add: new_networking_def started syscall_def Let_def split_beta
        calloc_Networking_Core_def s_def calls_def temp_def addr6_def w5_def)
  have port: "ss_port addr6 = htons e p" by (simp add: addr6_def)
  have sock: "sock temp = s" by (simp add: temp_def)
  have first: "fst (bind_retry e os temp addr6 sizeof_sockaddr_in6 a p w5) =
                 Some (temp\<lparr>net_port := htons e p\<rparr>)"
    if "fst (os (trace w5) (Bind s addr6 sizeof_sockaddr_in6)) = 0"
    using that bind_loop_success [OF port, of 0 0 os temp sizeof_sockaddr_in6 w5]
    by (simp add: bind_retry_def bind_result_0 [OF port] sock)
  from reach first show ?thesis
    unfolding Let_def w1_def [symmetric] s_def [symmetric] calls_def [symmetric]
      temp_def [symmetric] addr6_def [symmetric] w5_def [symmetric]
    by simp
qed

text \<open>
  C7, witness: the request for \<^verbatim>\<open>IPV6_V6ONLY\<close> fails with error 92, the first \<^verbatim>\<open>bind\<close>
  succeeds and the socket is returned, bound to port 33445.
\<close>

theorem new_networking_v6only_witness:
  "family ip6_any = AF_INET6 \<and>
   os_busy 0
     [Current_time, Srandom 3350818816, Current_time, Srand 3350818816,
      Calloc_Networking_Core, Socket AF_INET6 SOCK_DGRAM IPPROTO_UDP,
      Setsockopt 3 SOL_SOCKET SO_BROADCAST 1 4, Fcntl 3 F_SETFL O_NONBLOCK 1]
     (Setsockopt 3 IPPROTO_IPV6 IPV6_V6ONLY 0 1) = (- 1, 92) \<and>
   fst (new_networking BigEndian (os_busy 0) ip6_any 33445 sockaddr_zero world_init) =
     Some (calloc_Networking_Core\<lparr>net_family := AF_INET6, sock := 3, net_port := 33445\<rparr>)"
proof -
  have h: "family ip6_any = AF_INET6" by (simp add: ip6_any_def)
  have w1: "snd (at_startup (os_busy 0) world_init) =
            \<lparr>trace = [Current_time, Srandom 3350818816, Current_time, Srand 3350818816],
             errno = 0, at_startup_ran = 1\<rparr>"
    by (simp add: at_startup_def current_time_def syscall_def emit_def Let_def os_busy_def
        world_init_def)
  have failed: "os_busy 0
     [Current_time, Srandom 3350818816, Current_time, Srand 3350818816,
      Calloc_Networking_Core, Socket AF_INET6 SOCK_DGRAM IPPROTO_UDP,
      Setsockopt 3 SOL_SOCKET SO_BROADCAST 1 4, Fcntl 3 F_SETFL O_NONBLOCK 1]
     (Setsockopt 3 IPPROTO_IPV6 IPV6_V6ONLY 0 1) = (- 1, 92)"
    by (simp add: os_busy_def)
  show ?thesis
    using h failed
      new_networking_v6only [OF h, where os = "os_busy 0" and w = world_init
        and addr = sockaddr_zero and e = BigEndian and p = 33445]
    by (auto simp add: Let_def w1 os_busy_def is_Bind_def htons_def)
qed

end
